theory Spec2Isabelle
  imports Main
begin

section \<open>pydax: dataset unarchiving and the extractor dispatcher\<close>

text \<open>
  A shallow embedding of \<^verbatim>\<open>pydax/_extractors.py\<close>. Python exceptions (the subclasses
  of \<^verbatim>\<open>Exception\<close>, which \<^verbatim>\<open>except Exception\<close> catches) are values of
  the type \<open>exn\<close>; a call returns \<open>exn + unit\<close> (\<open>Inl\<close> the exception raised) together
  with the world it leaves behind. Dictionaries are association lists, because Python
  dictionaries keep insertion order and the order is observable in the manifest and in
  the fallback sweep.
\<close>

subsection \<open>Values\<close>

type_synonym path = string

datatype exn =
    ReadError string
  | TypeError string
  | ValueError string
  | KeyError string
  | OSError string
  | RuntimeError string
  | OtherError string

text \<open>
  A \<^verbatim>\<open>tarfile.TarInfo\<close>: the fields and the method the extractor reads. \<open>member_type\<close>
  is the one-byte type flag of the header (\<^verbatim>\<open>member.type\<close>), \<open>member_isreg\<close> the value of
  \<^verbatim>\<open>member.isreg()\<close>.
\<close>

record tarinfo =
  member_name :: string
  member_type :: char
  member_isreg :: bool
  member_size :: int

text \<open>An open \<^verbatim>\<open>tarfile.TarFile\<close>: what \<^verbatim>\<open>getmembers()\<close> returns or raises.\<close>

datatype tarfile = TarFile (getmembers: "exn + tarinfo list")

text \<open>
  The manifest: \<^verbatim>\<open>members\<close>, a dictionary from member name to a dictionary with the
  keys \<^verbatim>\<open>'type'\<close> and, for regular files, \<^verbatim>\<open>'size'\<close>.
\<close>

type_synonym entry = "(string \<times> int) list"
type_synonym members_dict = "(string \<times> entry) list"

text \<open>
  A file opened with mode \<^verbatim>\<open>'w'\<close> is truncated; after \<^verbatim>\<open>json.dump\<close> it holds the
  dictionary, in the dictionary's order. A file written by \<^verbatim>\<open>extractall\<close> holds the data
  of an archive member.
\<close>

datatype fcontent = Truncated | Json members_dict | Extracted tarinfo

datatype extractor = Tar | Zip | Gzip | Bzip2 | Lzma

text \<open>
  The world: what was printed, the files written (through \<^verbatim>\<open>open(..., mode='w')\<close> or by
  \<^verbatim>\<open>extractall\<close>), by path, and the members \<^verbatim>\<open>extractall\<close> has put into each directory.
\<close>

record world =
  stdout :: "string list"
  files :: "path \<Rightarrow> fcontent option"
  dirs :: "path \<Rightarrow> tarinfo list"

text \<open>
  A ghost log of the extractor calls the dispatcher makes, in order: the extractor, and
  whether the call returned without raising. It is not part of the world, so nothing the
  library does can depend on it.
\<close>

type_synonym calls = "(extractor \<times> bool) list"

text \<open>
  The Python standard library and the operating system are not part of the repository;
  their behaviour is a parameter. Each operation can raise, and each operation on the
  file system may depend on the current world.
  \<^item> \<open>guess_type\<close>: \<^verbatim>\<open>mimetypes.guess_type(path)\<close>, a function of the path;
  \<^item> \<open>tarfile_open\<close>: \<^verbatim>\<open>tarfile.open(path)\<close>;
  \<^item> \<open>open_w\<close>: the exception \<^verbatim>\<open>open(file_list_file, mode='w')\<close> raises, if any;
  \<^item> \<open>json_dump\<close>: the exception raised while \<^verbatim>\<open>json.dump\<close> writes to the open file, if any;
  \<^item> \<open>extractall\<close>: the members \<^verbatim>\<open>tar.extractall(path=data_dir)\<close> writes, each with the
    path of the file it is written to, and the exception it then raises, if any.
\<close>

record pylib =
  guess_type :: "path \<Rightarrow> exn + string option \<times> string option"
  tarfile_open :: "world \<Rightarrow> path \<Rightarrow> exn + tarfile"
  open_w :: "world \<Rightarrow> path \<Rightarrow> exn option"
  json_dump :: "world \<Rightarrow> path \<Rightarrow> exn option"
  extractall :: "world \<Rightarrow> tarfile \<Rightarrow> path \<Rightarrow> (tarinfo \<times> path) list \<times> exn option"

subsection \<open>Python built-ins\<close>

text \<open>\<^verbatim>\<open>d[k] = v\<close>: an existing key keeps its position, a new key goes last.\<close>

fun dict_set :: "('k \<times> 'v) list \<Rightarrow> 'k \<Rightarrow> 'v \<Rightarrow> ('k \<times> 'v) list" where
  "dict_set [] k v = [(k, v)]"
| "dict_set ((k', v') # d) k v =
     (if k' = k then (k, v) # d else (k', v') # dict_set d k v)"

text \<open>\<^verbatim>\<open>{**a, **b}\<close>: the items of \<open>a\<close>, then those of \<open>b\<close> stored one by one.\<close>

definition dict_merge :: "('k \<times> 'v) list \<Rightarrow> ('k \<times> 'v) list \<Rightarrow> ('k \<times> 'v) list" where
  "dict_merge a b = foldl (\<lambda>d (k, v). dict_set d k v) a b"

text \<open>\<^verbatim>\<open>key in d.keys()\<close>, for a key that may be \<^verbatim>\<open>None\<close> (never a key here).\<close>

definition is_key :: "(string \<times> 'v) list \<Rightarrow> string option \<Rightarrow> bool" where
  "is_key d key = (case key of None \<Rightarrow> False | Some k \<Rightarrow> k \<in> set (map fst d))"

text \<open>\<^verbatim>\<open>d.get(key, default)\<close>; the value \<^verbatim>\<open>None\<close> is \<open>None\<close>.\<close>

definition dict_get :: "(string \<times> 'v) list \<Rightarrow> string option \<Rightarrow> 'v option \<Rightarrow> 'v option" where
  "dict_get d key dflt =
     (case key of
        None \<Rightarrow> dflt
      | Some k \<Rightarrow> (case map_of d k of None \<Rightarrow> dflt | Some v \<Rightarrow> Some v))"

text \<open>\<^verbatim>\<open>d.values()\<close>\<close>

definition dict_values :: "('k \<times> 'v) list \<Rightarrow> 'v list" where
  "dict_values d = map snd d"

text \<open>
  \<^verbatim>\<open>int(b)\<close> for a bytes object of length one: the decimal digit, or \<^verbatim>\<open>ValueError\<close>.
\<close>

definition py_int :: "char \<Rightarrow> exn + int" where
  "py_int c =
     (if c \<in> set ''0123456789'' then Inr (int (of_char c) - 48)
      else Inl (ValueError ''invalid literal for int() with base 10''))"

definition print :: "string \<Rightarrow> world \<Rightarrow> world" where
  "print s w = w\<lparr>stdout := stdout w @ [s]\<rparr>"

subsection \<open>The extractors\<close>

text \<open>
  Lines 41 to 45 of \<^verbatim>\<open>tar_extractor\<close>: the loop over \<^verbatim>\<open>tar.getmembers()\<close> that fills
  \<^verbatim>\<open>members\<close>.
\<close>

fun member_loop :: "tarinfo list \<Rightarrow> members_dict \<Rightarrow> exn + members_dict" where
  "member_loop [] members = Inr members"
| "member_loop (member # rest) members =
     (case py_int (member_type member) of
        Inl e \<Rightarrow> Inl e
      | Inr t \<Rightarrow>
          (let members1 = dict_set members (member_name member) [(''type'', t)] in
           if member_isreg member then
             (case map_of members1 (member_name member) of
                None \<Rightarrow> Inl (KeyError (member_name member))
              | Some d \<Rightarrow>
                  member_loop rest
                    (dict_set members1 (member_name member)
                       (dict_set d ''size'' (member_size member))))
           else member_loop rest members1))"

text \<open>The files \<^verbatim>\<open>extractall\<close> writes, in order; a later write to a path replaces an earlier one.\<close>

fun write_members ::
  "(path \<Rightarrow> fcontent option) \<Rightarrow> (tarinfo \<times> path) list \<Rightarrow> path \<Rightarrow> fcontent option" where
  "write_members fs [] = fs"
| "write_members fs ((m, p) # rest) = write_members (fs(p \<mapsto> Extracted m)) rest"

definition tar_extractor ::
  "pylib \<Rightarrow> path \<Rightarrow> path \<Rightarrow> path \<Rightarrow> world \<Rightarrow> (exn + unit) \<times> world" where
  "tar_extractor L path data_dir file_list_file w0 =
     (let w1 = print ''1: tar'' w0 in
      case tarfile_open L w1 path of
        Inl (ReadError e) \<Rightarrow>
          (Inl (ReadError (''Failed to unarchive \"'' @ path @ ''\"\<newline>caused by:\<newline>'' @ e)), w1)
      | Inl e \<Rightarrow> (Inl e, w1)
      | Inr tar \<Rightarrow>
          (case getmembers tar of
             Inl e \<Rightarrow> (Inl e, w1)
           | Inr ms \<Rightarrow>
               (case member_loop ms [] of
                  Inl e \<Rightarrow> (Inl e, w1)
                | Inr members \<Rightarrow>
                    (case open_w L w1 file_list_file of
                       Some e \<Rightarrow> (Inl e, w1)
                     | None \<Rightarrow>
                         (let w2 = w1\<lparr>files := (files w1)(file_list_file \<mapsto> Truncated)\<rparr> in
                          case json_dump L w2 file_list_file of
                            Some e \<Rightarrow> (Inl e, w2)
                          | None \<Rightarrow>
                              (let w3 = w2\<lparr>files := (files w2)(file_list_file \<mapsto> Json members)\<rparr>;
                                   (written, err) = extractall L w3 tar data_dir;
                                   w4 = w3\<lparr>files := write_members (files w3) written,
                                          dirs := (dirs w3)(data_dir :=
                                            dirs w3 data_dir @ map fst written)\<rparr>
                               in case err of
                                    Some e \<Rightarrow> (Inl e, w4)
                                  | None \<Rightarrow> (Inr (), w4)))))))"

definition zip_extractor :: "path \<Rightarrow> world \<Rightarrow> (exn + unit) \<times> world" where
  "zip_extractor path w = (Inr (), print ''1: zip'' w)"

definition gzip_extractor :: "path \<Rightarrow> world \<Rightarrow> (exn + unit) \<times> world" where
  "gzip_extractor path w = (Inr (), print ''2: gzip'' w)"

definition bzip2_extractor :: "path \<Rightarrow> world \<Rightarrow> (exn + unit) \<times> world" where
  "bzip2_extractor path w = (Inr (), print ''2: bzip2'' w)"

definition lzma_extractor :: "path \<Rightarrow> world \<Rightarrow> (exn + unit) \<times> world" where
  "lzma_extractor path w = (Inr (), print ''2: lzma'' w)"

text \<open>
  Calling an extractor with a list of positional arguments. A call whose number of
  arguments is not the number of parameters raises \<^verbatim>\<open>TypeError\<close> before the body runs.
\<close>

definition call :: "pylib \<Rightarrow> extractor \<Rightarrow> path list \<Rightarrow> world \<Rightarrow> (exn + unit) \<times> world" where
  "call L ex args w =
     (case (ex, args) of
        (Tar, [path, data_dir, file_list_file]) \<Rightarrow> tar_extractor L path data_dir file_list_file w
      | (Zip, [path]) \<Rightarrow> zip_extractor path w
      | (Gzip, [path]) \<Rightarrow> gzip_extractor path w
      | (Bzip2, [path]) \<Rightarrow> bzip2_extractor path w
      | (Lzma, [path]) \<Rightarrow> lzma_extractor path w
      | _ \<Rightarrow> (Inl (TypeError ''wrong number of positional arguments''), w))"

subsection \<open>The registries and the dispatcher\<close>

definition archives :: "(string \<times> extractor) list" where
  "archives = [(''application/x-tar'', Tar), (''application/zip'', Zip)]"

definition compressions :: "(string \<times> extractor) list" where
  "compressions = [(''gzip'', Gzip), (''bzip2'', Bzip2), (''xz'', Lzma)]"

text \<open>
  One \<^verbatim>\<open>try: extractor(path, data_dir, file_list_file) except Exception: pass else: return\<close>
  block: the result says whether the \<^verbatim>\<open>else\<close> branch was taken. The call is entered in
  the ghost log.
\<close>

definition attempt ::
  "pylib \<Rightarrow> extractor \<Rightarrow> path \<Rightarrow> path \<Rightarrow> path \<Rightarrow> world \<times> calls \<Rightarrow> bool \<times> world \<times> calls" where
  "attempt L ex path data_dir file_list_file s =
     (case s of
        (w, log) \<Rightarrow>
          (case call L ex [path, data_dir, file_list_file] w of
             (Inl e, w') \<Rightarrow> (False, w', log @ [(ex, False)])
           | (Inr u, w') \<Rightarrow> (True, w', log @ [(ex, True)])))"

text \<open>Lines 115 to 124: the loop over \<^verbatim>\<open>extractor_map.values()\<close> and the final raise.\<close>

fun sweep ::
  "pylib \<Rightarrow> extractor list \<Rightarrow> path \<Rightarrow> path \<Rightarrow> path \<Rightarrow> world \<times> calls \<Rightarrow>
     (exn + unit) \<times> world \<times> calls" where
  "sweep L [] path data_dir file_list_file s =
     (Inl (RuntimeError ''Filetype not supported''), s)"
| "sweep L (ex # rest) path data_dir file_list_file s =
     (case attempt L ex path data_dir file_list_file s of
        (True, s') \<Rightarrow> (Inr (), s')
      | (False, s') \<Rightarrow> sweep L rest path data_dir file_list_file s')"

definition extractor_map :: "(string \<times> extractor) list" where
  "extractor_map = dict_merge archives compressions"

text \<open>Line 105: \<^verbatim>\<open>extractor_map.get(ftype, extractor_map.get(fencoding))\<close>.\<close>

definition select_extractor :: "string option \<Rightarrow> string option \<Rightarrow> extractor option" where
  "select_extractor ftype fencoding =
     dict_get extractor_map ftype (dict_get extractor_map fencoding None)"

text \<open>
  \<^verbatim>\<open>extract_data_files\<close>. The result is what the call returns or raises, the world it
  leaves, and the ghost log of its extractor calls. The call of \<^verbatim>\<open>mimetypes.guess_type\<close>
  in line 100 is outside every \<^verbatim>\<open>try\<close>: its exception propagates. Calling \<^verbatim>\<open>None\<close> (the
  \<open>None\<close> case, which the guard of line 103 excludes) would raise \<^verbatim>\<open>TypeError\<close> inside
  the \<^verbatim>\<open>try\<close> and fall through to the sweep.
\<close>

definition extract_data_files ::
  "pylib \<Rightarrow> path \<Rightarrow> path \<Rightarrow> path \<Rightarrow> world \<Rightarrow> (exn + unit) \<times> world \<times> calls" where
  "extract_data_files L path data_dir file_list_file w =
     (case guess_type L path of
        Inl e \<Rightarrow> (Inl e, w, [])
      | Inr (ftype, fencoding) \<Rightarrow>
          if is_key extractor_map ftype \<or> is_key extractor_map fencoding then
            (case select_extractor ftype fencoding of
               None \<Rightarrow> sweep L (dict_values extractor_map) path data_dir file_list_file (w, [])
             | Some ex \<Rightarrow>
                 (case attempt L ex path data_dir file_list_file (w, []) of
                    (True, s') \<Rightarrow> (Inr (), s')
                  | (False, s') \<Rightarrow>
                      sweep L (dict_values extractor_map) path data_dir file_list_file s'))
          else sweep L (dict_values extractor_map) path data_dir file_list_file (w, []))"

subsection \<open>Vocabulary of the statements\<close>

text \<open>Whether a call with the dispatcher's three arguments returns without raising.\<close>

definition succeeds :: "pylib \<Rightarrow> extractor \<Rightarrow> path \<Rightarrow> path \<Rightarrow> path \<Rightarrow> world \<Rightarrow> bool" where
  "succeeds L ex path data_dir file_list_file w =
     (case fst (call L ex [path, data_dir, file_list_file] w) of Inl e \<Rightarrow> False | Inr u \<Rightarrow> True)"

text \<open>
  The calls of the hinted step (lines 103 to 111): none when \<^verbatim>\<open>guess_type\<close> raised or
  neither guess is a key, else the one selected extractor with the outcome of its call.
\<close>

definition hinted_step :: "pylib \<Rightarrow> path \<Rightarrow> path \<Rightarrow> path \<Rightarrow> world \<Rightarrow> calls" where
  "hinted_step L path data_dir file_list_file w =
     (case guess_type L path of
        Inl e \<Rightarrow> []
      | Inr (ftype, fencoding) \<Rightarrow>
          if is_key extractor_map ftype \<or> is_key extractor_map fencoding then
            (case select_extractor ftype fencoding of
               None \<Rightarrow> []
             | Some ex \<Rightarrow> [(ex, succeeds L ex path data_dir file_list_file w)])
          else [])"

text \<open>The world the hinted step leaves.\<close>

definition after_hint :: "pylib \<Rightarrow> path \<Rightarrow> path \<Rightarrow> path \<Rightarrow> world \<Rightarrow> world" where
  "after_hint L path data_dir file_list_file w =
     (case hinted_step L path data_dir file_list_file w of
        [] \<Rightarrow> w
      | (ex, ok) # rest \<Rightarrow> snd (call L ex [path, data_dir, file_list_file] w))"

subsection \<open>Vocabulary of the statements about the tar extractor\<close>

text \<open>
  Lines 38 and 39: a \<^verbatim>\<open>tarfile.ReadError\<close> of \<^verbatim>\<open>tarfile.open\<close> is raised again with the
  path and the cause in its message; any other exception propagates as it is.
\<close>

definition reraise :: "path \<Rightarrow> exn \<Rightarrow> exn" where
  "reraise path e =
     (case e of
        ReadError msg \<Rightarrow> ReadError (''Failed to unarchive \"'' @ path @ ''\"\<newline>caused by:\<newline>'' @ msg)
      | _ \<Rightarrow> e)"

text \<open>
  The library \<open>L\<close> with every exception it raises inside an extractor replaced by its
  image under \<open>g\<close>: what succeeds, and what is written, stays the same.
\<close>

definition mask_errors :: "(exn \<Rightarrow> exn) \<Rightarrow> pylib \<Rightarrow> pylib" where
  "mask_errors g L =
     \<lparr>guess_type = guess_type L,
      tarfile_open = (\<lambda>w p.
        case tarfile_open L w p of
          Inl e \<Rightarrow> Inl (g e)
        | Inr tar \<Rightarrow>
            (case getmembers tar of Inl e \<Rightarrow> Inr (TarFile (Inl (g e))) | Inr ms \<Rightarrow> Inr tar)),
      open_w = (\<lambda>w p. map_option g (open_w L w p)),
      json_dump = (\<lambda>w p. map_option g (json_dump L w p)),
      extractall = (\<lambda>w tar d.
        case extractall L w tar d of (written, err) \<Rightarrow> (written, map_option g err))\<rparr>"


text \<open>
  The world of a \<^verbatim>\<open>tar_extractor\<close> call on \<open>w\<close> when the manifest file has been opened, and
  when the manifest \<open>M\<close> has been dumped to it.
\<close>

definition truncated :: "path \<Rightarrow> world \<Rightarrow> world" where
  "truncated file_list_file w =
     (print ''1: tar'' w)\<lparr>files := (files (print ''1: tar'' w))(file_list_file \<mapsto> Truncated)\<rparr>"

definition dumped :: "path \<Rightarrow> members_dict \<Rightarrow> world \<Rightarrow> world" where
  "dumped file_list_file M w =
     (truncated file_list_file w)\<lparr>files :=
        (files (truncated file_list_file w))(file_list_file \<mapsto> Json M)\<rparr>"

text \<open>
  The manifest as a function of the member list alone. The entry of a member: its type
  flag as an integer, and its size when it is a regular file. The keys: the member
  names in the order of their first occurrence. The entry of a name: that of the last
  member of that name.
\<close>

definition type_code :: "tarinfo \<Rightarrow> int" where
  "type_code m = int (of_char (member_type m)) - 48"

definition spec_entry :: "tarinfo \<Rightarrow> entry" where
  "spec_entry m =
     (''type'', type_code m) # (if member_isreg m then [(''size'', member_size m)] else [])"

fun first_occurrences :: "'a list \<Rightarrow> 'a list" where
  "first_occurrences [] = []"
| "first_occurrences (x # xs) = x # first_occurrences (filter (\<lambda>y. y \<noteq> x) xs)"

definition spec_manifest :: "tarinfo list \<Rightarrow> members_dict" where
  "spec_manifest ms =
     map (\<lambda>n. (n, spec_entry (last (filter (\<lambda>m. member_name m = n) ms))))
       (first_occurrences (map member_name ms))"

text \<open>Storing the entry of each member of a list in a dictionary, one after the other.\<close>

abbreviation store_all :: "members_dict \<Rightarrow> tarinfo list \<Rightarrow> members_dict" where
  "store_all acc ms \<equiv> foldl (\<lambda>d m. dict_set d (member_name m) (spec_entry m)) acc ms"

subsection \<open>A sample library and sample archives\<close>

definition empty_world :: world where
  "empty_world = \<lparr>stdout = [], files = (\<lambda>p. None), dirs = (\<lambda>p. [])\<rparr>"

definition corpus_dir :: tarinfo where
  "corpus_dir = \<lparr>member_name = ''corpus'', member_type = CHR ''5'', member_isreg = False,
     member_size = 0\<rparr>"

definition corpus_readme :: tarinfo where
  "corpus_readme = \<lparr>member_name = ''corpus/README'', member_type = CHR ''0'',
     member_isreg = True, member_size = 12\<rparr>"

definition corpus_tar :: tarfile where
  "corpus_tar = TarFile (Inr [corpus_dir, corpus_readme])"

text \<open>An archive to which a second version of the same file was appended.\<close>

definition log_v1 :: tarinfo where
  "log_v1 = \<lparr>member_name = ''log.txt'', member_type = CHR ''0'', member_isreg = True,
     member_size = 7\<rparr>"

definition log_v2 :: tarinfo where
  "log_v2 = \<lparr>member_name = ''log.txt'', member_type = CHR ''0'', member_isreg = True,
     member_size = 9\<rparr>"

definition appended_tar :: tarfile where
  "appended_tar = TarFile (Inr [log_v1, log_v2])"

text \<open>An archive with a member named like a manifest file.\<close>

definition inner_list :: tarinfo where
  "inner_list = \<lparr>member_name = ''files.json'', member_type = CHR ''0'', member_isreg = True,
     member_size = 3\<rparr>"

definition nested_tar :: tarfile where
  "nested_tar = TarFile (Inr [inner_list])"

text \<open>An archive with an old-style regular file, whose type flag is the NUL byte.\<close>

definition old_style_file :: tarinfo where
  "old_style_file = \<lparr>member_name = ''README'', member_type = CHR 0x00, member_isreg = True,
     member_size = 5\<rparr>"

definition old_style_tar :: tarfile where
  "old_style_tar = TarFile (Inr [old_style_file])"

text \<open>
  A library in which \<^verbatim>\<open>corpus.tar\<close>, \<^verbatim>\<open>corpus.tar.gz\<close>, \<^verbatim>\<open>corpus.bin\<close> and
  \<^verbatim>\<open>//[x/corpus.tar\<close> hold the corpus archive, \<^verbatim>\<open>appended.tar\<close>, \<^verbatim>\<open>nested.tar\<close> and
  \<^verbatim>\<open>old.tar\<close> the other archives, \<^verbatim>\<open>missing.tar\<close> does not exist, and every other path
  is no tar archive. \<^verbatim>\<open>mimetypes.guess_type\<close> raises on \<^verbatim>\<open>//[x/corpus.tar\<close>, which it
  parses as a URL. A member is extracted to the target directory joined with its name,
  and nothing can be extracted into \<^verbatim>\<open>/readonly\<close>.
\<close>

definition sample_lib :: pylib where
  "sample_lib =
     \<lparr>guess_type = (\<lambda>p.
        if p = ''//[x/corpus.tar'' then Inl (ValueError ''Invalid IPv6 URL'')
        else if p = ''corpus.tar'' \<or> p = ''broken.tar'' \<or> p = ''appended.tar'' \<or>
                p = ''nested.tar'' \<or> p = ''old.tar'' \<or> p = ''missing.tar''
          then Inr (Some ''application/x-tar'', None)
        else if p = ''corpus.tar.gz'' then Inr (Some ''application/x-tar'', Some ''gzip'')
        else if p = ''notes.txt.gz'' then Inr (Some ''text/plain'', Some ''gzip'')
        else Inr (None, None)),
      tarfile_open = (\<lambda>w p.
        if p = ''corpus.tar'' \<or> p = ''corpus.tar.gz'' \<or> p = ''corpus.bin'' \<or>
           p = ''//[x/corpus.tar'' then Inr corpus_tar
        else if p = ''appended.tar'' then Inr appended_tar
        else if p = ''nested.tar'' then Inr nested_tar
        else if p = ''old.tar'' then Inr old_style_tar
        else if p = ''missing.tar'' then Inl (OSError ''No such file or directory'')
        else Inl (ReadError ''file could not be opened successfully'')),
      open_w = (\<lambda>w p. None),
      json_dump = (\<lambda>w p. None),
      extractall = (\<lambda>w tar d.
        if d = ''/readonly'' then ([], Some (OSError ''Permission denied''))
        else (case getmembers tar of
                Inl e \<Rightarrow> ([], Some e)
              | Inr ms \<Rightarrow> (map (\<lambda>m. (m, d @ ''/'' @ member_name m)) ms, None)))\<rparr>"

section \<open>Properties\<close>

subsection \<open>Basic facts\<close>

lemmas sample_defs = sample_lib_def empty_world_def corpus_tar_def corpus_dir_def
  corpus_readme_def appended_tar_def log_v1_def log_v2_def nested_tar_def inner_list_def
  old_style_tar_def old_style_file_def

lemmas run_defs = extract_data_files_def attempt_def call_def tar_extractor_def
  select_extractor_def dict_get_def is_key_def extractor_map_def dict_merge_def archives_def
  compressions_def dict_values_def print_def py_int_def Let_def succeeds_def

lemma extractor_map_eq:
  "extractor_map = [(''application/x-tar'', Tar), (''application/zip'', Zip),
     (''gzip'', Gzip), (''bzip2'', Bzip2), (''xz'', Lzma)]"
  by (simp add: extractor_map_def dict_merge_def archives_def compressions_def)


lemma values_eq: "dict_values extractor_map = [Tar, Zip, Gzip, Bzip2, Lzma]"
  by (simp add: extractor_map_eq dict_values_def)

lemma call_stub:
  "ex \<noteq> Tar \<Longrightarrow>
   call L ex [p, d, f] w = (Inl (TypeError ''wrong number of positional arguments''), w)"
  by (cases ex) (simp_all add: call_def)

lemma call_tar: "call L Tar [p, d, f] w = tar_extractor L p d f w"
  by (simp add: call_def)

lemma attempt_eq:
  "attempt L ex p d f (w, log) =
     (succeeds L ex p d f w, snd (call L ex [p, d, f] w), log @ [(ex, succeeds L ex p d f w)])"
  by (simp add: attempt_def succeeds_def split: prod.splits sum.splits)

lemma succeeds_stub: "ex \<noteq> Tar \<Longrightarrow> \<not> succeeds L ex p d f w"
  by (simp add: succeeds_def call_stub)

lemma succeeds_isl: "succeeds L ex p d f w = (\<not> isl (fst (call L ex [p, d, f] w)))"
  by (simp add: succeeds_def split: sum.splits)


text \<open>
  The sweep over a list of extractors: the first \<open>k\<close> calls fail, and either the next one
  succeeds and ends the sweep, or the list is exhausted and the sweep raises.
\<close>

lemma sweep_log:
  "sweep L es p d f (w, log) = (r, w', log') \<Longrightarrow>
   \<exists>k\<le>length es.
     log' = log @ map (\<lambda>e. (e, False)) (take k es) @ (if r = Inr () then [(es ! k, True)] else []) \<and>
     (r = Inr () \<longrightarrow> k < length es) \<and>
     (r \<noteq> Inr () \<longrightarrow> k = length es \<and> r = Inl (RuntimeError ''Filetype not supported''))"
proof (induction es arbitrary: w log)
  case Nil
  then show ?case by auto
next
  case (Cons ex es)
  show ?case
  proof (cases "succeeds L ex p d f w")
    case True
    with Cons.prems have "r = Inr ()" "log' = log @ [(ex, True)]"
      by (simp_all add: attempt_eq)
    then show ?thesis by (intro exI[of _ 0]) simp
  next
    case False
    with Cons.prems have
      "sweep L es p d f (snd (call L ex [p, d, f] w), log @ [(ex, False)]) = (r, w', log')"
      by (simp add: attempt_eq)
    from Cons.IH[OF this] obtain k where k: "k \<le> length es"
      "log' = (log @ [(ex, False)]) @ map (\<lambda>e. (e, False)) (take k es) @
         (if r = Inr () then [(es ! k, True)] else [])"
      "r = Inr () \<longrightarrow> k < length es"
      "r \<noteq> Inr () \<longrightarrow> k = length es \<and> r = Inl (RuntimeError ''Filetype not supported'')"
      by blast
    then show ?thesis by (intro exI[of _ "Suc k"]) auto
  qed
qed


lemma hinted_step_raise: "guess_type L path = Inl e \<Longrightarrow> hinted_step L path d f w = []"
  by (simp add: hinted_step_def)

lemma extract_raise:
  "guess_type L path = Inl e \<Longrightarrow> extract_data_files L path d f w = (Inl e, w, [])"
  by (simp add: extract_data_files_def)

lemma extract_unfold:
  "guess_type L p = Inr g \<Longrightarrow>
   extract_data_files L p d f w =
     (if \<exists>ex. hinted_step L p d f w = [(ex, True)]
      then (Inr (), after_hint L p d f w, hinted_step L p d f w)
      else sweep L (dict_values extractor_map) p d f (after_hint L p d f w, hinted_step L p d f w))"
  by (cases g)
     (simp add: extract_data_files_def hinted_step_def after_hint_def attempt_eq
      split: prod.splits option.splits)

lemma hinted_step_cases:
  "hinted_step L p d f w = [] \<or> (\<exists>ex. hinted_step L p d f w = [(ex, succeeds L ex p d f w)])"
  by (simp add: hinted_step_def split: prod.splits option.splits sum.splits)

lemma is_key_iff: "is_key d key \<longleftrightarrow> (\<exists>k v. key = Some k \<and> map_of d k = Some v)"
proof (cases key)
  case None
  then show ?thesis by (simp add: is_key_def)
next
  case (Some k)
  have "k \<in> fst ` set d \<longleftrightarrow> map_of d k \<noteq> None"
    by (simp add: map_of_eq_None_iff)
  then show ?thesis using Some by (auto simp: is_key_def)
qed

lemma select_some:
  "is_key extractor_map ftype \<or> is_key extractor_map fencoding \<Longrightarrow>
   \<exists>ex. select_extractor ftype fencoding = Some ex \<and>
     (is_key extractor_map ftype \<longrightarrow> (\<exists>k. ftype = Some k \<and> map_of extractor_map k = Some ex)) \<and>
     (\<not> is_key extractor_map ftype \<longrightarrow> (\<exists>k. fencoding = Some k \<and> map_of extractor_map k = Some ex))"
  unfolding select_extractor_def dict_get_def is_key_iff
  by (cases ftype; cases fencoding) (auto split: option.splits)

lemma sweep_registry:
  "sweep L (dict_values extractor_map) p d f (w, log) =
     (if succeeds L Tar p d f w
      then (Inr (), snd (call L Tar [p, d, f] w), log @ [(Tar, True)])
      else (Inl (RuntimeError ''Filetype not supported''), snd (call L Tar [p, d, f] w),
            log @ [(Tar, False), (Zip, False), (Gzip, False), (Bzip2, False), (Lzma, False)]))"
  by (simp add: values_eq attempt_eq succeeds_stub call_stub)

lemma extract_closed:
  "guess_type L p = Inr g \<Longrightarrow>
   extract_data_files L p d f w =
     (if \<exists>ex. hinted_step L p d f w = [(ex, True)]
      then (Inr (), after_hint L p d f w, hinted_step L p d f w)
      else if succeeds L Tar p d f (after_hint L p d f w)
      then (Inr (), snd (call L Tar [p, d, f] (after_hint L p d f w)),
            hinted_step L p d f w @ [(Tar, True)])
      else (Inl (RuntimeError ''Filetype not supported''),
            snd (call L Tar [p, d, f] (after_hint L p d f w)),
            hinted_step L p d f w @
              [(Tar, False), (Zip, False), (Gzip, False), (Bzip2, False), (Lzma, False)]))"
  by (simp add: extract_unfold sweep_registry)

subsection \<open>The hinted step\<close>

text \<open>
  C1. When the guessed type or the guessed encoding is a key of the merged registry, the
  dispatcher selects one extractor, the one registered for the guessed type when that
  is a key and the one registered for the guessed encoding otherwise, and calls it
  first. If that call raises nothing, the dispatcher returns successfully and has made
  no other call.
\<close>

theorem hinted_extractor_tried_alone:
  assumes "guess_type L path = Inr (ftype, fencoding)"
    and "is_key extractor_map ftype \<or> is_key extractor_map fencoding"
  shows "\<exists>ex. select_extractor ftype fencoding = Some ex \<and>
     (is_key extractor_map ftype \<longrightarrow> (\<exists>k. ftype = Some k \<and> map_of extractor_map k = Some ex)) \<and>
     (\<not> is_key extractor_map ftype \<longrightarrow>
        (\<exists>k. fencoding = Some k \<and> map_of extractor_map k = Some ex)) \<and>
     (\<exists>rest. snd (snd (extract_data_files L path data_dir file_list_file w)) =
        (ex, succeeds L ex path data_dir file_list_file w) # rest) \<and>
     (succeeds L ex path data_dir file_list_file w \<longrightarrow>
        extract_data_files L path data_dir file_list_file w =
          (Inr (), snd (call L ex [path, data_dir, file_list_file] w), [(ex, True)]))"
proof -
  from select_some[OF assms(2)] obtain ex where ex:
    "select_extractor ftype fencoding = Some ex"
    "is_key extractor_map ftype \<longrightarrow> (\<exists>k. ftype = Some k \<and> map_of extractor_map k = Some ex)"
    "\<not> is_key extractor_map ftype \<longrightarrow> (\<exists>k. fencoding = Some k \<and> map_of extractor_map k = Some ex)"
    by blast
  let ?ok = "succeeds L ex path data_dir file_list_file w"
  have hs: "hinted_step L path data_dir file_list_file w = [(ex, ?ok)]"
    using assms ex(1) by (simp add: hinted_step_def)
  have ah: "after_hint L path data_dir file_list_file w =
      snd (call L ex [path, data_dir, file_list_file] w)"
    by (simp add: after_hint_def hs)
  note unf = extract_unfold[OF assms(1)]
  have 1: "?ok \<longrightarrow> extract_data_files L path data_dir file_list_file w =
          (Inr (), snd (call L ex [path, data_dir, file_list_file] w), [(ex, True)])"
    by (simp add: unf hs ah)
  have 2: "\<exists>rest. snd (snd (extract_data_files L path data_dir file_list_file w)) =
      (ex, ?ok) # rest"
  proof (cases ?ok)
    case True
    then show ?thesis using 1 by simp
  next
    case False
    obtain r w' log where sw: "sweep L (dict_values extractor_map) path data_dir file_list_file
        (snd (call L ex [path, data_dir, file_list_file] w), [(ex, ?ok)]) = (r, w', log)"
      by (metis prod_cases3)
    from sweep_log[OF sw] obtain tl where "log = [(ex, ?ok)] @ tl" by blast
    then show ?thesis using False sw by (simp add: unf hs ah)
  qed
  show ?thesis using ex 1 2 by blast
qed

theorem hinted_extractor_tried_alone_witness:
  "guess_type sample_lib ''corpus.tar.gz'' = Inr (Some ''application/x-tar'', Some ''gzip'') \<and>
   is_key extractor_map (Some ''application/x-tar'') \<and>
   is_key extractor_map (Some ''gzip'') \<and>
   select_extractor (Some ''application/x-tar'') (Some ''gzip'') = Some Tar \<and>
   succeeds sample_lib Tar ''corpus.tar.gz'' ''out'' ''files.json'' empty_world \<and>
   extract_data_files sample_lib ''corpus.tar.gz'' ''out'' ''files.json'' empty_world =
     (Inr (), snd (call sample_lib Tar [''corpus.tar.gz'', ''out'', ''files.json''] empty_world),
      [(Tar, True)])"
proof -
  have g: "guess_type sample_lib ''corpus.tar.gz'' =
      Inr (Some ''application/x-tar'', Some ''gzip'')"
    by (simp add: sample_lib_def)
  have k1: "is_key extractor_map (Some ''application/x-tar'')"
    by (simp add: is_key_def extractor_map_eq)
  have k2: "is_key extractor_map (Some ''gzip'')"
    by (simp add: is_key_def extractor_map_eq)
  have k: "is_key extractor_map (Some ''application/x-tar'') \<or> is_key extractor_map (Some ''gzip'')"
    using k1 by simp
  have sel: "select_extractor (Some ''application/x-tar'') (Some ''gzip'') = Some Tar"
    by (simp add: select_extractor_def dict_get_def extractor_map_eq)
  have ok: "succeeds sample_lib Tar ''corpus.tar.gz'' ''out'' ''files.json'' empty_world"
    by (simp add: run_defs sample_defs)
  from hinted_extractor_tried_alone[OF g k, of "''out''" "''files.json''" empty_world]
  obtain ex where "select_extractor (Some ''application/x-tar'') (Some ''gzip'') = Some ex"
    and "succeeds sample_lib ex ''corpus.tar.gz'' ''out'' ''files.json'' empty_world \<longrightarrow>
      extract_data_files sample_lib ''corpus.tar.gz'' ''out'' ''files.json'' empty_world =
        (Inr (), snd (call sample_lib ex [''corpus.tar.gz'', ''out'', ''files.json''] empty_world),
         [(ex, True)])"
    by blast
  with sel ok g k1 k2 show ?thesis by simp
qed

subsection \<open>The fallback sweep\<close>



text \<open>
  C9, as stated, fails: a corrupted file named \<^verbatim>\<open>broken.tar\<close> is given to
  \<^verbatim>\<open>tar_extractor\<close> in the hinted step and again as the first call of the sweep.
\<close>

theorem hinted_tar_called_twice:
  "snd (snd (extract_data_files sample_lib ''broken.tar'' ''out'' ''files.json'' empty_world)) =
     [(Tar, False), (Tar, False), (Zip, False), (Gzip, False), (Bzip2, False), (Lzma, False)]"
  by (simp add: run_defs sample_defs)

text \<open>
  The calls of a run in which \<^verbatim>\<open>mimetypes.guess_type\<close> returned: those of the hinted
  step, then those of the sweep.
\<close>

lemma calls_of_a_run:
  assumes "guess_type L path = Inr g"
    and "extract_data_files L path data_dir file_list_file w = (r, w', log)"
  shows "\<exists>sw. log = hinted_step L path data_dir file_list_file w @ sw \<and>
     length (hinted_step L path data_dir file_list_file w) \<le> 1 \<and>
     ((\<exists>ex. hinted_step L path data_dir file_list_file w = [(ex, True)]) \<longrightarrow> sw = []) \<and>
     ((\<forall>x\<in>set (hinted_step L path data_dir file_list_file w). \<not> snd x) \<longrightarrow>
        (\<exists>k\<le>length (dict_values archives @ dict_values compressions).
           sw = map (\<lambda>e. (e, False)) (take k (dict_values archives @ dict_values compressions)) @
                (if r = Inr ()
                 then [((dict_values archives @ dict_values compressions) ! k, True)] else []) \<and>
           (r = Inr () \<longrightarrow> k < length (dict_values archives @ dict_values compressions)) \<and>
           (r \<noteq> Inr () \<longrightarrow> k = length (dict_values archives @ dict_values compressions)))) \<and>
     distinct (map fst sw) \<and>
     (\<forall>ex. count_list (map fst log) ex \<le> 2) \<and>
     (hinted_step L path data_dir file_list_file w = [(Tar, False)] \<longrightarrow>
        count_list (map fst log) Tar = 2) \<and>
     (\<forall>ex. hinted_step L path data_dir file_list_file w = [(ex, False)] \<and> r \<noteq> Inr () \<longrightarrow>
        count_list (map fst log) ex = 2)"
proof -
  let ?hs = "hinted_step L path data_dir file_list_file w"
  have ord: "dict_values archives @ dict_values compressions = [Tar, Zip, Gzip, Bzip2, Lzma]"
    by (simp add: dict_values_def archives_def compressions_def)
  have len: "length ?hs \<le> 1"
    using hinted_step_cases[of L path data_dir file_list_file w] by auto
  note cl = extract_closed[OF assms(1), of data_dir file_list_file w]
  consider (hit) ex where "?hs = [(ex, True)]" "r = Inr ()" "log = ?hs"
    | (first) "\<forall>x\<in>set ?hs. \<not> snd x" "r = Inr ()" "log = ?hs @ [(Tar, True)]"
    | (none) "\<forall>x\<in>set ?hs. \<not> snd x" "r = Inl (RuntimeError ''Filetype not supported'')"
        "log = ?hs @ [(Tar, False), (Zip, False), (Gzip, False), (Bzip2, False), (Lzma, False)]"
    using assms(2) hinted_step_cases[of L path data_dir file_list_file w]
    by (auto simp: cl split: if_splits)
  then show ?thesis
  proof cases
    case hit
    then show ?thesis
      unfolding ord by (intro exI[of _ "[]"]) auto
  next
    case first
    have k: "\<exists>k\<le>length [Tar, Zip, Gzip, Bzip2, Lzma].
           [(Tar, True)] = map (\<lambda>e. (e, False)) (take k [Tar, Zip, Gzip, Bzip2, Lzma]) @
                (if r = Inr () then [([Tar, Zip, Gzip, Bzip2, Lzma] ! k, True)] else []) \<and>
           (r = Inr () \<longrightarrow> k < length [Tar, Zip, Gzip, Bzip2, Lzma]) \<and>
           (r \<noteq> Inr () \<longrightarrow> k = length [Tar, Zip, Gzip, Bzip2, Lzma])"
      using first(2) by (intro exI[of _ 0]) simp
    have cnt: "\<forall>ex. count_list (map fst log) ex \<le> 2"
      using first(3) hinted_step_cases[of L path data_dir file_list_file w] by auto
    have tar: "?hs = [(Tar, False)] \<longrightarrow> count_list (map fst log) Tar = 2"
      using first(3) by auto
    have hit: "\<not> (\<exists>ex. ?hs = [(ex, True)])"
      using first(1) by auto
    show ?thesis
      unfolding ord
      apply (intro exI[of _ "[(Tar, True)]"] conjI)
      subgoal using first(3) by simp
      subgoal using len by simp
      subgoal using hit by simp
      subgoal using k by blast
      subgoal by simp
      subgoal using cnt by simp
      subgoal using tar by simp
      subgoal using first(2) by simp
      done
  next
    case none
    let ?sw = "[(Tar, False), (Zip, False), (Gzip, False), (Bzip2, False), (Lzma, False)]"
    have k: "\<exists>k\<le>length [Tar, Zip, Gzip, Bzip2, Lzma].
           ?sw = map (\<lambda>e. (e, False)) (take k [Tar, Zip, Gzip, Bzip2, Lzma]) @
                (if r = Inr () then [([Tar, Zip, Gzip, Bzip2, Lzma] ! k, True)] else []) \<and>
           (r = Inr () \<longrightarrow> k < length [Tar, Zip, Gzip, Bzip2, Lzma]) \<and>
           (r \<noteq> Inr () \<longrightarrow> k = length [Tar, Zip, Gzip, Bzip2, Lzma])"
      using none(2) by (intro exI[of _ 5]) simp
    have cnt: "count_list (map fst log) ex \<le> 2" for ex
      using none(3) hinted_step_cases[of L path data_dir file_list_file w]
      by (cases ex) auto
    have again: "?hs = [(ex, False)] \<longrightarrow> count_list (map fst log) ex = 2" for ex
      using none(3) by (cases ex) auto
    have hit: "\<not> (\<exists>ex. ?hs = [(ex, True)])"
      using none(1) by auto
    show ?thesis
      unfolding ord
      apply (intro exI[of _ ?sw] conjI)
      subgoal using none(3) by simp
      subgoal using len by simp
      subgoal using hit by simp
      subgoal using k by blast
      subgoal by simp
      subgoal using cnt by simp
      subgoal using again by simp
      subgoal using again by simp
      done
  qed
qed

text \<open>
  C9, amended. When \<^verbatim>\<open>mimetypes.guess_type\<close> raises, no extractor is called. Otherwise
  the hinted step calls at most one extractor; when that call raised, or there was
  none, the sweep calls the registered extractors in registry order, skipping none,
  until one succeeds. So the sweep calls no extractor more than once and no extractor
  is called more than twice; a failed hinted \<^verbatim>\<open>tar_extractor\<close> is called again as the
  first call of the sweep, and any failed hinted extractor is called again whenever the
  dispatcher ends by raising.
\<close>

theorem no_extractor_tried_more_than_twice:
  "(\<forall>e. guess_type L path = Inl e \<longrightarrow>
      snd (snd (extract_data_files L path data_dir file_list_file w)) = []) \<and>
   (\<forall>g. guess_type L path = Inr g \<longrightarrow>
     (\<exists>sw. snd (snd (extract_data_files L path data_dir file_list_file w)) =
          hinted_step L path data_dir file_list_file w @ sw \<and>
     length (hinted_step L path data_dir file_list_file w) \<le> 1 \<and>
     ((\<exists>ex. hinted_step L path data_dir file_list_file w = [(ex, True)]) \<longrightarrow> sw = []) \<and>
     ((\<forall>x\<in>set (hinted_step L path data_dir file_list_file w). \<not> snd x) \<longrightarrow>
        (\<exists>k\<le>length (dict_values archives @ dict_values compressions).
           sw = map (\<lambda>e. (e, False)) (take k (dict_values archives @ dict_values compressions)) @
                (if fst (extract_data_files L path data_dir file_list_file w) = Inr ()
                 then [((dict_values archives @ dict_values compressions) ! k, True)] else []) \<and>
           (fst (extract_data_files L path data_dir file_list_file w) = Inr () \<longrightarrow>
              k < length (dict_values archives @ dict_values compressions)) \<and>
           (fst (extract_data_files L path data_dir file_list_file w) \<noteq> Inr () \<longrightarrow>
              k = length (dict_values archives @ dict_values compressions)))) \<and>
     distinct (map fst sw) \<and>
     (\<forall>ex. count_list
        (map fst (snd (snd (extract_data_files L path data_dir file_list_file w)))) ex \<le> 2) \<and>
     (hinted_step L path data_dir file_list_file w = [(Tar, False)] \<longrightarrow>
        count_list
          (map fst (snd (snd (extract_data_files L path data_dir file_list_file w)))) Tar = 2) \<and>
     (\<forall>ex. hinted_step L path data_dir file_list_file w = [(ex, False)] \<and>
           fst (extract_data_files L path data_dir file_list_file w) \<noteq> Inr () \<longrightarrow>
        count_list
          (map fst (snd (snd (extract_data_files L path data_dir file_list_file w)))) ex = 2)))"
proof (intro conjI allI impI)
  fix e
  assume "guess_type L path = Inl e"
  then show "snd (snd (extract_data_files L path data_dir file_list_file w)) = []"
    by (simp add: extract_raise)
next
  fix g
  assume g: "guess_type L path = Inr g"
  obtain r w' log where
    e: "extract_data_files L path data_dir file_list_file w = (r, w', log)"
    by (metis prod_cases3)
  from calls_of_a_run[OF g e]
  show "\<exists>sw. snd (snd (extract_data_files L path data_dir file_list_file w)) =
          hinted_step L path data_dir file_list_file w @ sw \<and>
     length (hinted_step L path data_dir file_list_file w) \<le> 1 \<and>
     ((\<exists>ex. hinted_step L path data_dir file_list_file w = [(ex, True)]) \<longrightarrow> sw = []) \<and>
     ((\<forall>x\<in>set (hinted_step L path data_dir file_list_file w). \<not> snd x) \<longrightarrow>
        (\<exists>k\<le>length (dict_values archives @ dict_values compressions).
           sw = map (\<lambda>e. (e, False)) (take k (dict_values archives @ dict_values compressions)) @
                (if fst (extract_data_files L path data_dir file_list_file w) = Inr ()
                 then [((dict_values archives @ dict_values compressions) ! k, True)] else []) \<and>
           (fst (extract_data_files L path data_dir file_list_file w) = Inr () \<longrightarrow>
              k < length (dict_values archives @ dict_values compressions)) \<and>
           (fst (extract_data_files L path data_dir file_list_file w) \<noteq> Inr () \<longrightarrow>
              k = length (dict_values archives @ dict_values compressions)))) \<and>
     distinct (map fst sw) \<and>
     (\<forall>ex. count_list
        (map fst (snd (snd (extract_data_files L path data_dir file_list_file w)))) ex \<le> 2) \<and>
     (hinted_step L path data_dir file_list_file w = [(Tar, False)] \<longrightarrow>
        count_list
          (map fst (snd (snd (extract_data_files L path data_dir file_list_file w)))) Tar = 2) \<and>
     (\<forall>ex. hinted_step L path data_dir file_list_file w = [(ex, False)] \<and>
           fst (extract_data_files L path data_dir file_list_file w) \<noteq> Inr () \<longrightarrow>
        count_list
          (map fst (snd (snd (extract_data_files L path data_dir file_list_file w)))) ex = 2)"
    unfolding e fst_conv snd_conv .
qed

theorem no_extractor_tried_more_than_twice_witness:
  "guess_type sample_lib ''notes.txt.gz'' = Inr (Some ''text/plain'', Some ''gzip'') \<and>
   hinted_step sample_lib ''notes.txt.gz'' ''out'' ''files.json'' empty_world = [(Gzip, False)] \<and>
   extract_data_files sample_lib ''notes.txt.gz'' ''out'' ''files.json'' empty_world =
     (Inl (RuntimeError ''Filetype not supported''), print ''1: tar'' empty_world,
      [(Gzip, False), (Tar, False), (Zip, False), (Gzip, False), (Bzip2, False), (Lzma, False)]) \<and>
   count_list (map fst
     [(Gzip, False), (Tar, False), (Zip, False), (Gzip, False), (Bzip2, False), (Lzma, False)])
     Gzip = 2"
proof -
  have g: "guess_type sample_lib ''notes.txt.gz'' = Inr (Some ''text/plain'', Some ''gzip'')"
    by (simp add: sample_lib_def)
  have hs: "hinted_step sample_lib ''notes.txt.gz'' ''out'' ''files.json'' empty_world =
      [(Gzip, False)]"
    by (simp add: hinted_step_def run_defs sample_defs)
  have e: "extract_data_files sample_lib ''notes.txt.gz'' ''out'' ''files.json'' empty_world =
     (Inl (RuntimeError ''Filetype not supported''), print ''1: tar'' empty_world,
      [(Gzip, False), (Tar, False), (Zip, False), (Gzip, False), (Bzip2, False), (Lzma, False)])"
    by (simp add: run_defs sample_defs)
  have nr: "fst (extract_data_files sample_lib ''notes.txt.gz'' ''out'' ''files.json'' empty_world) \<noteq>
      Inr ()"
    by (simp add: e)
  from no_extractor_tried_more_than_twice[of sample_lib "''notes.txt.gz''" "''out''" "''files.json''"
      empty_world] g hs nr
  have "count_list (map fst (snd (snd (extract_data_files sample_lib ''notes.txt.gz'' ''out''
      ''files.json'' empty_world)))) Gzip = 2"
    by blast
  with g hs e show ?thesis by simp
qed

subsection \<open>Errors\<close>

text \<open>
  C3, as stated, fails: the error raised after every extractor failed is the same value
  for two different source paths, so it does not carry the path.
\<close>

theorem unsupported_error_omits_path:
  "fst (extract_data_files sample_lib ''blob.bin'' ''out'' ''files.json'' empty_world) =
     Inl (RuntimeError ''Filetype not supported'') \<and>
   fst (extract_data_files sample_lib ''other.dat'' ''out'' ''files.json'' empty_world) =
     Inl (RuntimeError ''Filetype not supported'') \<and>
   ''blob.bin'' \<noteq> ''other.dat''"
  by (simp add: run_defs sample_defs)

text \<open>
  C3, amended. Once \<^verbatim>\<open>mimetypes.guess_type\<close> has returned, the dispatcher returns
  successfully or raises \<^verbatim>\<open>RuntimeError('Filetype not supported')\<close>, a fixed message
  without the path, and nothing else; when every call it made raised, it raises that
  error, and it has then called every registered extractor. An exception of
  \<^verbatim>\<open>guess_type\<close> itself propagates, with no extractor called and the world unchanged.
\<close>

theorem exhaustion_raises_fixed_error:
  "(\<forall>g. guess_type L path = Inr g \<longrightarrow>
      (fst (extract_data_files L path data_dir file_list_file w) = Inr () \<or>
       fst (extract_data_files L path data_dir file_list_file w) =
         Inl (RuntimeError ''Filetype not supported'')) \<and>
      ((\<forall>x\<in>set (snd (snd (extract_data_files L path data_dir file_list_file w))). \<not> snd x) \<longrightarrow>
         fst (extract_data_files L path data_dir file_list_file w) =
           Inl (RuntimeError ''Filetype not supported'') \<and>
         (\<forall>ex\<in>set (dict_values extractor_map).
            (ex, False) \<in> set (snd (snd (extract_data_files L path data_dir file_list_file w)))))) \<and>
   (\<forall>e. guess_type L path = Inl e \<longrightarrow>
      extract_data_files L path data_dir file_list_file w = (Inl e, w, []))"
  by (auto simp: extract_closed extract_raise values_eq)

theorem exhaustion_raises_fixed_error_witness:
  "guess_type sample_lib ''blob.bin'' = Inr (None, None) \<and>
   snd (snd (extract_data_files sample_lib ''blob.bin'' ''out'' ''files.json'' empty_world)) =
     [(Tar, False), (Zip, False), (Gzip, False), (Bzip2, False), (Lzma, False)] \<and>
   fst (extract_data_files sample_lib ''blob.bin'' ''out'' ''files.json'' empty_world) =
     Inl (RuntimeError ''Filetype not supported'') \<and>
   guess_type sample_lib ''//[x/corpus.tar'' = Inl (ValueError ''Invalid IPv6 URL'') \<and>
   extract_data_files sample_lib ''//[x/corpus.tar'' ''out'' ''files.json'' empty_world =
     (Inl (ValueError ''Invalid IPv6 URL''), empty_world, [])"
proof -
  have g: "guess_type sample_lib ''blob.bin'' = Inr (None, None)"
    by (simp add: sample_lib_def)
  have g2: "guess_type sample_lib ''//[x/corpus.tar'' = Inl (ValueError ''Invalid IPv6 URL'')"
    by (simp add: sample_lib_def)
  have log: "snd (snd (extract_data_files sample_lib ''blob.bin'' ''out'' ''files.json'' empty_world)) =
     [(Tar, False), (Zip, False), (Gzip, False), (Bzip2, False), (Lzma, False)]"
    by (simp add: run_defs sample_defs)
  then have allf: "\<forall>x\<in>set (snd (snd (extract_data_files sample_lib ''blob.bin'' ''out''
      ''files.json'' empty_world))). \<not> snd x"
    by simp
  note t = exhaustion_raises_fixed_error[of sample_lib "''blob.bin''" "''out''" "''files.json''"
      empty_world]
  from t g allf
  have r: "fst (extract_data_files sample_lib ''blob.bin'' ''out'' ''files.json'' empty_world) =
     Inl (RuntimeError ''Filetype not supported'')"
    by blast
  from exhaustion_raises_fixed_error[of sample_lib "''//[x/corpus.tar''" "''out''" "''files.json''"
      empty_world] g2
  have r2: "extract_data_files sample_lib ''//[x/corpus.tar'' ''out'' ''files.json'' empty_world =
     (Inl (ValueError ''Invalid IPv6 URL''), empty_world, [])"
    by blast
  from g g2 log r r2 show ?thesis by simp
qed

text \<open>
  C4, as stated, fails: \<^verbatim>\<open>mimetypes.guess_type\<close> raises on the path \<^verbatim>\<open>//[x/corpus.tar\<close>;
  \<^verbatim>\<open>tar_extractor\<close> completes without error on it, and the dispatcher raises without
  calling any extractor.
\<close>

theorem guess_failure_precedes_tar:
  "succeeds sample_lib Tar ''//[x/corpus.tar'' ''out'' ''files.json'' empty_world \<and>
   extract_data_files sample_lib ''//[x/corpus.tar'' ''out'' ''files.json'' empty_world =
     (Inl (ValueError ''Invalid IPv6 URL''), empty_world, [])"
  by (simp add: run_defs sample_defs)

text \<open>
  C4, amended. \<^verbatim>\<open>zip_extractor\<close>, \<^verbatim>\<open>gzip_extractor\<close>, \<^verbatim>\<open>bzip2_extractor\<close> and
  \<^verbatim>\<open>lzma_extractor\<close> take one parameter and are called with three arguments: every such
  call raises \<^verbatim>\<open>TypeError\<close> and changes nothing. So the only call that can succeed is
  one of \<^verbatim>\<open>tar_extractor\<close>, and the dispatcher returns successfully exactly when a call
  of \<^verbatim>\<open>tar_extractor\<close> did. Once \<^verbatim>\<open>mimetypes.guess_type\<close> has returned, that is exactly
  when \<^verbatim>\<open>tar_extractor\<close> completes without error on the world given or, after a failed
  hinted call of \<^verbatim>\<open>tar_extractor\<close>, on the world that call left.
\<close>

theorem only_tar_extractor_can_succeed:
  "(\<forall>ex w1. ex \<noteq> Tar \<longrightarrow>
      call L ex [path, data_dir, file_list_file] w1 =
        (Inl (TypeError ''wrong number of positional arguments''), w1)) \<and>
   (\<forall>ex. (ex, True) \<in> set (snd (snd (extract_data_files L path data_dir file_list_file w))) \<longrightarrow>
      ex = Tar) \<and>
   (fst (extract_data_files L path data_dir file_list_file w) = Inr () \<longleftrightarrow>
      (Tar, True) \<in> set (snd (snd (extract_data_files L path data_dir file_list_file w)))) \<and>
   (\<forall>g. guess_type L path = Inr g \<longrightarrow>
     (fst (extract_data_files L path data_dir file_list_file w) = Inr () \<longleftrightarrow>
        succeeds L Tar path data_dir file_list_file w \<or>
        (hinted_step L path data_dir file_list_file w = [(Tar, False)] \<and>
         succeeds L Tar path data_dir file_list_file
           (snd (tar_extractor L path data_dir file_list_file w)))))"
proof (cases "guess_type L path")
  case (Inl e)
  then show ?thesis by (simp add: extract_raise call_stub)
next
  case (Inr g)
  note cl = extract_closed[OF Inr, of data_dir file_list_file w]
  let ?hs = "hinted_step L path data_dir file_list_file w"
  let ?ah = "after_hint L path data_dir file_list_file w"
  consider (none) "?hs = []" | (tar) "?hs = [(Tar, succeeds L Tar path data_dir file_list_file w)]"
    | (stub) ex where "ex \<noteq> Tar" "?hs = [(ex, False)]"
    using hinted_step_cases[of L path data_dir file_list_file w] succeeds_stub
    by (metis (full_types))
  then have b: "(\<forall>ex. (ex, True) \<in> set (snd (snd (extract_data_files L path data_dir file_list_file w))) \<longrightarrow>
      ex = Tar) \<and>
   (fst (extract_data_files L path data_dir file_list_file w) = Inr () \<longleftrightarrow>
      (Tar, True) \<in> set (snd (snd (extract_data_files L path data_dir file_list_file w)))) \<and>
   (fst (extract_data_files L path data_dir file_list_file w) = Inr () \<longleftrightarrow>
      succeeds L Tar path data_dir file_list_file w \<or>
      (hinted_step L path data_dir file_list_file w = [(Tar, False)] \<and>
       succeeds L Tar path data_dir file_list_file
         (snd (tar_extractor L path data_dir file_list_file w))))"
  proof cases
    case none
    then have "?ah = w" by (simp add: after_hint_def)
    with none show ?thesis by (simp add: cl)
  next
    case tar
    then have "?ah = snd (tar_extractor L path data_dir file_list_file w)"
      by (simp add: after_hint_def call_tar)
    with tar show ?thesis by (auto simp: cl)
  next
    case stub
    then have "?ah = w" by (simp add: after_hint_def call_stub)
    with stub show ?thesis by (simp add: cl)
  qed
  have a: "\<forall>ex w1. ex \<noteq> Tar \<longrightarrow>
      call L ex [path, data_dir, file_list_file] w1 =
        (Inl (TypeError ''wrong number of positional arguments''), w1)"
    by (simp add: call_stub)
  from a b show ?thesis by blast
qed

theorem only_tar_extractor_can_succeed_witness:
  "Zip \<noteq> Tar \<and>
   call sample_lib Zip [''corpus.bin'', ''out'', ''files.json''] empty_world =
     (Inl (TypeError ''wrong number of positional arguments''), empty_world) \<and>
   guess_type sample_lib ''corpus.bin'' = Inr (None, None) \<and>
   succeeds sample_lib Tar ''corpus.bin'' ''out'' ''files.json'' empty_world \<and>
   fst (extract_data_files sample_lib ''corpus.bin'' ''out'' ''files.json'' empty_world) = Inr () \<and>
   (Tar, True) \<in> set (snd (snd (extract_data_files sample_lib ''corpus.bin'' ''out'' ''files.json''
      empty_world)))"
proof -
  have g: "guess_type sample_lib ''corpus.bin'' = Inr (None, None)"
    by (simp add: sample_lib_def)
  have s: "succeeds sample_lib Tar ''corpus.bin'' ''out'' ''files.json'' empty_world"
    by (simp add: run_defs sample_defs)
  note t = only_tar_extractor_can_succeed[of sample_lib "''corpus.bin''" "''out''" "''files.json''" empty_world]
  from t have c: "call sample_lib Zip [''corpus.bin'', ''out'', ''files.json''] empty_world =
     (Inl (TypeError ''wrong number of positional arguments''), empty_world)"
    by blast
  from t s g have r: "fst (extract_data_files sample_lib ''corpus.bin'' ''out'' ''files.json'' empty_world) = Inr ()"
    by blast
  with t have "(Tar, True) \<in> set (snd (snd (extract_data_files sample_lib ''corpus.bin'' ''out'' ''files.json''
      empty_world)))"
    by blast
  with s c r g show ?thesis by simp
qed

subsection \<open>Exceptions of the extractors are swallowed\<close>

lemma tar_extractor_alt:
  "tar_extractor L path data_dir file_list_file w0 =
     (let w1 = print ''1: tar'' w0 in
      case tarfile_open L w1 path of
        Inl e \<Rightarrow> (Inl (reraise path e), w1)
      | Inr tar \<Rightarrow>
          (case getmembers tar of
             Inl e \<Rightarrow> (Inl e, w1)
           | Inr ms \<Rightarrow>
               (case member_loop ms [] of
                  Inl e \<Rightarrow> (Inl e, w1)
                | Inr members \<Rightarrow>
                    (case open_w L w1 file_list_file of
                       Some e \<Rightarrow> (Inl e, w1)
                     | None \<Rightarrow>
                         (let w2 = w1\<lparr>files := (files w1)(file_list_file \<mapsto> Truncated)\<rparr> in
                          case json_dump L w2 file_list_file of
                            Some e \<Rightarrow> (Inl e, w2)
                          | None \<Rightarrow>
                              (let w3 = w2\<lparr>files := (files w2)(file_list_file \<mapsto> Json members)\<rparr>;
                                   (written, err) = extractall L w3 tar data_dir;
                                   w4 = w3\<lparr>files := write_members (files w3) written,
                                          dirs := (dirs w3)(data_dir :=
                                            dirs w3 data_dir @ map fst written)\<rparr>
                               in case err of
                                    Some e \<Rightarrow> (Inl e, w4)
                                  | None \<Rightarrow> (Inr (), w4)))))))"
proof (cases "tarfile_open L (print ''1: tar'' w0) path")
  case (Inl e)
  then show ?thesis
    by (cases e) (simp_all add: tar_extractor_def reraise_def Let_def)
next
  case (Inr tar)
  then show ?thesis
    by (simp add: tar_extractor_def Let_def)
qed

lemma tar_mask:
  "snd (tar_extractor (mask_errors g L) p d f w) = snd (tar_extractor L p d f w) \<and>
   isl (fst (tar_extractor (mask_errors g L) p d f w)) = isl (fst (tar_extractor L p d f w))"
  unfolding tar_extractor_alt mask_errors_def
  by (cases "tarfile_open L (print ''1: tar'' w) p")
     (auto simp: Let_def split: sum.splits option.splits prod.splits)

lemma call_mask:
  "snd (call (mask_errors g L) ex [p, d, f] w) = snd (call L ex [p, d, f] w) \<and>
   isl (fst (call (mask_errors g L) ex [p, d, f] w)) = isl (fst (call L ex [p, d, f] w))"
  by (cases "ex = Tar") (simp_all add: call_tar tar_mask call_stub)

lemma succeeds_mask: "succeeds (mask_errors g L) ex p d f w = succeeds L ex p d f w"
  by (simp add: succeeds_isl call_mask)

lemma guess_mask: "guess_type (mask_errors g L) = guess_type L"
  by (simp add: mask_errors_def)

lemma hinted_mask: "hinted_step (mask_errors g L) p d f w = hinted_step L p d f w"
  by (simp add: hinted_step_def guess_mask succeeds_mask split: prod.splits option.splits sum.splits)

lemma after_mask: "after_hint (mask_errors g L) p d f w = after_hint L p d f w"
  by (simp add: after_hint_def hinted_mask call_mask split: list.splits prod.splits)

text \<open>
  C5. No exception raised by an extractor call reaches the caller: replacing every
  exception the library raises inside the extractors by any other exception changes
  neither the result, nor the world, nor the calls made; and an error the dispatcher
  raises is either its own \<^verbatim>\<open>RuntimeError\<close>, raised after every call it made had raised,
  or the exception of \<^verbatim>\<open>mimetypes.guess_type\<close>, raised before any extractor was called.
\<close>

theorem extractor_errors_never_surface:
  "extract_data_files (mask_errors g L) path data_dir file_list_file w =
     extract_data_files L path data_dir file_list_file w \<and>
   (\<forall>e. fst (extract_data_files L path data_dir file_list_file w) = Inl e \<longrightarrow>
      (guess_type L path = Inl e \<and>
       snd (snd (extract_data_files L path data_dir file_list_file w)) = []) \<or>
      (e = RuntimeError ''Filetype not supported'' \<and>
       snd (snd (extract_data_files L path data_dir file_list_file w)) \<noteq> [] \<and>
       (\<forall>x\<in>set (snd (snd (extract_data_files L path data_dir file_list_file w))). \<not> snd x)))"
proof (cases "guess_type L path")
  case (Inl e)
  then have "guess_type (mask_errors g L) path = Inl e" by (simp add: guess_mask)
  with Inl show ?thesis by (simp add: extract_raise)
next
  case (Inr gt)
  then have gm: "guess_type (mask_errors g L) path = Inr gt" by (simp add: guess_mask)
  have 1: "extract_data_files (mask_errors g L) path data_dir file_list_file w =
     extract_data_files L path data_dir file_list_file w"
    by (simp add: extract_closed[OF gm] extract_closed[OF Inr] hinted_mask after_mask
        succeeds_mask call_mask)
  have 2: "\<forall>e. fst (extract_data_files L path data_dir file_list_file w) = Inl e \<longrightarrow>
      (guess_type L path = Inl e \<and>
       snd (snd (extract_data_files L path data_dir file_list_file w)) = []) \<or>
      (e = RuntimeError ''Filetype not supported'' \<and>
       snd (snd (extract_data_files L path data_dir file_list_file w)) \<noteq> [] \<and>
       (\<forall>x\<in>set (snd (snd (extract_data_files L path data_dir file_list_file w))). \<not> snd x))"
    using hinted_step_cases[of L path data_dir file_list_file w]
    by (auto simp: extract_closed[OF Inr])
  show ?thesis by (rule conjI[OF 1 2])
qed

theorem extractor_errors_never_surface_witness:
  "fst (extract_data_files sample_lib ''corpus.tar'' ''/readonly'' ''files.json'' empty_world) =
     Inl (RuntimeError ''Filetype not supported'') \<and>
   RuntimeError ''Filetype not supported'' \<noteq> OSError ''Permission denied'' \<and>
   snd (snd (extract_data_files sample_lib ''corpus.tar'' ''/readonly'' ''files.json'' empty_world)) =
     [(Tar, False), (Tar, False), (Zip, False), (Gzip, False), (Bzip2, False), (Lzma, False)] \<and>
   extract_data_files (mask_errors (\<lambda>e. ValueError ''masked'') sample_lib)
       ''corpus.tar'' ''/readonly'' ''files.json'' empty_world =
     extract_data_files sample_lib ''corpus.tar'' ''/readonly'' ''files.json'' empty_world"
proof -
  have r: "fst (extract_data_files sample_lib ''corpus.tar'' ''/readonly'' ''files.json'' empty_world) =
     Inl (RuntimeError ''Filetype not supported'')"
    by (simp add: run_defs sample_defs)
  have log: "snd (snd (extract_data_files sample_lib ''corpus.tar'' ''/readonly'' ''files.json'' empty_world)) =
     [(Tar, False), (Tar, False), (Zip, False), (Gzip, False), (Bzip2, False), (Lzma, False)]"
    by (simp add: run_defs sample_defs)
  from extractor_errors_never_surface[of "\<lambda>e. ValueError ''masked''" sample_lib "''corpus.tar''"
      "''/readonly''" "''files.json''" empty_world]
  have "extract_data_files (mask_errors (\<lambda>e. ValueError ''masked'') sample_lib)
       ''corpus.tar'' ''/readonly'' ''files.json'' empty_world =
     extract_data_files sample_lib ''corpus.tar'' ''/readonly'' ''files.json'' empty_world"
    by blast
  with r log show ?thesis by simp
qed

subsection \<open>The tar extractor\<close>

lemma print_fields: "files (print s w) = files w" "dirs (print s w) = dirs w"
  by (simp_all add: print_def)

lemma tar_open_error:
  assumes "tarfile_open L (print ''1: tar'' w) path = Inl e"
  shows "tar_extractor L path data_dir file_list_file w = (Inl (reraise path e), print ''1: tar'' w)"
  using assms by (simp add: tar_extractor_alt Let_def)

text \<open>
  C8, as stated, fails: \<^verbatim>\<open>missing.tar\<close> does not exist, so it cannot be opened as a tar
  archive; \<^verbatim>\<open>tarfile.open\<close> raises an \<^verbatim>\<open>OSError\<close>, and \<^verbatim>\<open>tar_extractor\<close> raises that
  error as it is, not a \<^verbatim>\<open>tarfile.ReadError\<close> with the path and the cause.
\<close>

theorem missing_archive_error_not_wrapped:
  "tarfile_open sample_lib (print ''1: tar'' empty_world) ''missing.tar'' =
     Inl (OSError ''No such file or directory'') \<and>
   fst (tar_extractor sample_lib ''missing.tar'' ''out'' ''files.json'' empty_world) =
     Inl (OSError ''No such file or directory'')"
  by (simp add: run_defs sample_defs)

text \<open>
  C8, amended. When \<^verbatim>\<open>tarfile.open\<close> raises, \<^verbatim>\<open>tar_extractor\<close> fails at once, before
  it writes any manifest or extracts any file. When the exception is a
  \<^verbatim>\<open>tarfile.ReadError\<close>, it raises a \<^verbatim>\<open>tarfile.ReadError\<close> whose message holds the path
  and the message of the cause; any other exception it raises as it is.
\<close>

theorem tar_open_failure_writes_nothing:
  assumes "tarfile_open L (print ''1: tar'' w) path = Inl e"
  shows "snd (tar_extractor L path data_dir file_list_file w) = print ''1: tar'' w \<and>
     files (snd (tar_extractor L path data_dir file_list_file w)) = files w \<and>
     dirs (snd (tar_extractor L path data_dir file_list_file w)) = dirs w \<and>
     (\<forall>msg. e = ReadError msg \<longrightarrow>
        fst (tar_extractor L path data_dir file_list_file w) =
          Inl (ReadError (''Failed to unarchive \"'' @ path @ ''\"\<newline>caused by:\<newline>'' @ msg))) \<and>
     ((\<forall>msg. e \<noteq> ReadError msg) \<longrightarrow>
        fst (tar_extractor L path data_dir file_list_file w) = Inl e)"
  using assms
  by (cases e) (simp_all add: tar_open_error reraise_def print_fields)

theorem tar_open_failure_writes_nothing_witness:
  "tarfile_open sample_lib (print ''1: tar'' empty_world) ''blob.bin'' =
     Inl (ReadError ''file could not be opened successfully'') \<and>
   fst (tar_extractor sample_lib ''blob.bin'' ''out'' ''files.json'' empty_world) =
     Inl (ReadError
       (''Failed to unarchive \"blob.bin\"\<newline>caused by:\<newline>file could not be opened successfully'')) \<and>
   files (snd (tar_extractor sample_lib ''blob.bin'' ''out'' ''files.json'' empty_world))
     ''files.json'' = None \<and>
   dirs (snd (tar_extractor sample_lib ''blob.bin'' ''out'' ''files.json'' empty_world)) ''out'' = []"
proof -
  have h: "tarfile_open sample_lib (print ''1: tar'' empty_world) ''blob.bin'' =
     Inl (ReadError ''file could not be opened successfully'')"
    by (simp add: sample_lib_def)
  have e: "files empty_world ''files.json'' = None" "dirs empty_world ''out'' = []"
    by (simp_all add: empty_world_def)
  from tar_open_failure_writes_nothing[OF h, of "''out''" "''files.json''"] h e
  show ?thesis by (simp add: print_fields)
qed

subsection \<open>The manifest\<close>

lemmas spec_defs = spec_manifest_def spec_entry_def type_code_def

lemma map_of_dict_set: "map_of (dict_set d k v) = (map_of d)(k \<mapsto> v)"
  by (induction d k v rule: dict_set.induct) (auto simp: fun_eq_iff)

lemma dict_set_twice: "dict_set (dict_set d k v) k v' = dict_set d k v'"
  by (induction d) auto

lemma keys_dict_set:
  "map fst (dict_set d k v) = (if k \<in> set (map fst d) then map fst d else map fst d @ [k])"
  by (induction d k v rule: dict_set.induct) (auto split: if_splits)

lemma py_int_Inr: "py_int c = Inr t \<longleftrightarrow> c \<in> set ''0123456789'' \<and> t = int (of_char c) - 48"
  by (auto simp: py_int_def)

lemma py_int_Inl:
  "c \<notin> set ''0123456789'' \<Longrightarrow> py_int c = Inl (ValueError ''invalid literal for int() with base 10'')"
  by (simp add: py_int_def)

lemma member_loop_step:
  assumes "py_int (member_type m) = Inr t"
  shows "member_loop (m # rest) acc =
     member_loop rest (dict_set acc (member_name m) (spec_entry m))"
proof -
  have t: "type_code m = t"
    using assms by (simp add: py_int_Inr type_code_def)
  show ?thesis
    using assms by (simp add: Let_def map_of_dict_set dict_set_twice spec_entry_def t)
qed

lemma member_loop_fail:
  "py_int (member_type m) = Inl e \<Longrightarrow> member_loop (m # rest) acc = Inl e"
  by simp


lemma member_loop_digits:
  "\<forall>m\<in>set ms. member_type m \<in> set ''0123456789'' \<Longrightarrow>
   member_loop ms acc = Inr (store_all acc ms)"
proof (induction ms arbitrary: acc)
  case Nil
  then show ?case by simp
next
  case (Cons m ms)
  then have "py_int (member_type m) = Inr (int (of_char (member_type m)) - 48)"
    by (simp add: py_int_Inr)
  from member_loop_step[OF this] Cons show ?case by simp
qed

lemma member_loop_non_digit:
  "\<exists>m\<in>set ms. member_type m \<notin> set ''0123456789'' \<Longrightarrow>
   member_loop ms acc = Inl (ValueError ''invalid literal for int() with base 10'')"
proof (induction ms arbitrary: acc)
  case Nil
  then show ?case by simp
next
  case (Cons m ms)
  show ?case
  proof (cases "member_type m \<in> set ''0123456789''")
    case True
    then have "py_int (member_type m) = Inr (int (of_char (member_type m)) - 48)"
      by (simp add: py_int_Inr)
    from member_loop_step[OF this] Cons True show ?thesis by auto
  next
    case False
    from member_loop_fail[OF py_int_Inl[OF this]] show ?thesis .
  qed
qed

lemma set_first_occurrences: "set (first_occurrences xs) = set xs"
  by (induction xs rule: first_occurrences.induct) auto

lemma distinct_first_occurrences: "distinct (first_occurrences xs)"
  by (induction xs rule: first_occurrences.induct) (auto simp: set_first_occurrences)

lemma first_occurrences_distinct: "distinct xs \<Longrightarrow> first_occurrences xs = xs"
proof (induction xs)
  case Nil
  then show ?case by simp
next
  case (Cons x xs)
  then have "filter (\<lambda>y. y \<noteq> x) xs = xs" by (auto intro: filter_True)
  with Cons show ?case by simp
qed

lemma store_all_keys:
  "map fst (store_all acc ms) =
     map fst acc @
     first_occurrences (filter (\<lambda>n. n \<notin> set (map fst acc)) (map member_name ms))"
proof (induction ms arbitrary: acc)
  case Nil
  then show ?case by simp
next
  case (Cons m ms)
  let ?n = "member_name m"
  let ?d = "dict_set acc ?n (spec_entry m)"
  have IH: "map fst (store_all ?d ms) =
     map fst ?d @ first_occurrences (filter (\<lambda>n. n \<notin> set (map fst ?d)) (map member_name ms))"
    by (rule Cons.IH)
  show ?case
  proof (cases "?n \<in> set (map fst acc)")
    case True
    then have "map fst ?d = map fst acc" by (simp add: keys_dict_set)
    with IH True show ?thesis by simp
  next
    case False
    then have k: "map fst ?d = map fst acc @ [?n]" by (simp add: keys_dict_set)
    have "filter (\<lambda>n. n \<notin> set (map fst ?d)) (map member_name ms) =
        filter (\<lambda>y. y \<noteq> ?n) (filter (\<lambda>n. n \<notin> set (map fst acc)) (map member_name ms))"
      unfolding k by (auto intro: filter_cong)
    with IH k False show ?thesis by simp
  qed
qed

lemma store_all_map_of:
  "map_of (store_all acc ms) k =
     (if filter (\<lambda>m. member_name m = k) ms = [] then map_of acc k
      else Some (spec_entry (last (filter (\<lambda>m. member_name m = k) ms))))"
  by (induction ms rule: rev_induct) (auto simp: map_of_dict_set)

lemma map_of_tabulate:
  "map_of (map (\<lambda>n. (n, g n)) ks) k = (if k \<in> set ks then Some (g k) else None)"
  by (induction ks) auto

lemma alist_ext:
  "distinct (map fst xs) \<Longrightarrow> map fst xs = map fst ys \<Longrightarrow> map_of xs = map_of ys \<Longrightarrow> xs = ys"
proof (induction xs arbitrary: ys)
  case Nil
  then show ?case by simp
next
  case (Cons x xs)
  from Cons.prems(2) obtain y ys' where ys: "ys = y # ys'" "fst x = fst y" "map fst xs = map fst ys'"
    by (cases ys) auto
  have "map_of (x # xs) (fst x) = map_of ys (fst x)" by (simp only: Cons.prems(3))
  then have sv: "snd x = snd y" using ys by (cases x; cases y) simp
  with ys(2) have xy: "x = y" by (simp add: prod_eq_iff)
  have a: "fst x \<notin> set (map fst xs)" using Cons.prems(1) by simp
  have b: "fst x \<notin> set (map fst ys')" using a unfolding ys(3) .
  have notin: "fst x \<notin> fst ` set xs" "fst x \<notin> fst ` set ys'"
    using a b by simp_all
  have "map_of xs k = map_of ys' k" for k
  proof (cases "k = fst x")
    case True
    have "map_of xs (fst x) = None" "map_of ys' (fst x) = None"
      using notin by (simp_all only: map_of_eq_None_iff not_False_eq_True)
    then show ?thesis using True by simp
  next
    case False
    have "map_of (x # xs) k = map_of ys k" by (simp only: Cons.prems(3))
    then show ?thesis using False ys xy by (cases x) (simp split: if_splits)
  qed
  then have "map_of xs = map_of ys'" by (simp add: fun_eq_iff)
  with Cons.IH[of ys'] Cons.prems(1) ys(3) have "xs = ys'" by simp
  with xy ys show ?case by simp
qed

text \<open>
  The dictionary the member loop builds is the manifest of the specification: keys in
  the order of first occurrence, each with the entry of the last member of that name.
\<close>

lemma store_all_spec: "store_all [] ms = spec_manifest ms"
proof (rule alist_ext)
  show "distinct (map fst (store_all [] ms))"
    by (simp add: store_all_keys distinct_first_occurrences)
  show "map fst (store_all [] ms) = map fst (spec_manifest ms)"
    by (simp add: store_all_keys spec_manifest_def comp_def)
  show "map_of (store_all [] ms) = map_of (spec_manifest ms)"
  proof
    fix k
    have "k \<in> set (map member_name ms) \<longleftrightarrow> filter (\<lambda>m. member_name m = k) ms \<noteq> []"
      by (auto simp: filter_empty_conv)
    then show "map_of (store_all [] ms) k = map_of (spec_manifest ms) k"
      by (simp add: store_all_map_of spec_manifest_def map_of_tabulate set_first_occurrences
          del: set_map)
  qed
qed

lemma filter_name_distinct:
  "distinct (map member_name ms) \<Longrightarrow> m \<in> set ms \<Longrightarrow>
   filter (\<lambda>m'. member_name m' = member_name m) ms = [m]"
proof (induction ms)
  case Nil
  then show ?case by simp
next
  case (Cons a ms)
  show ?case
  proof (cases "m = a")
    case True
    have "filter (\<lambda>m'. member_name m' = member_name a) ms = []"
      using Cons.prems(1) by (auto simp: filter_empty_conv image_iff)
    with True show ?thesis by simp
  next
    case False
    with Cons.prems have "m \<in> set ms" by simp
    with Cons.prems(1) have "member_name a \<noteq> member_name m" by auto
    with Cons \<open>m \<in> set ms\<close> show ?thesis by simp
  qed
qed

lemma spec_manifest_distinct:
  assumes "distinct (map member_name ms)"
  shows "spec_manifest ms = map (\<lambda>m. (member_name m, spec_entry m)) ms"
proof -
  have "map (\<lambda>n. (n, spec_entry (last (filter (\<lambda>m. member_name m = n) ms)))) (map member_name ms) =
      map (\<lambda>m. (member_name m, spec_entry m)) ms"
    by (simp add: comp_def filter_name_distinct[OF assms] cong: map_cong)
  then show ?thesis
    by (simp add: spec_manifest_def first_occurrences_distinct[OF assms])
qed

lemma write_members_other: "p \<notin> snd ` set written \<Longrightarrow> write_members fs written p = fs p"
  by (induction fs written rule: write_members.induct) auto


lemma tar_after_dump:
  assumes "tarfile_open L (print ''1: tar'' w) p = Inr tar"
    and "getmembers tar = Inr ms"
    and "member_loop ms [] = Inr M"
    and "open_w L (print ''1: tar'' w) f = None"
    and "json_dump L (truncated f w) f = None"
  shows "files (snd (tar_extractor L p d f w)) =
       write_members (files (dumped f M w)) (fst (extractall L (dumped f M w) tar d)) \<and>
     (fst (tar_extractor L p d f w) = Inr () \<longleftrightarrow>
        snd (extractall L (dumped f M w) tar d) = None)"
  using assms unfolding tar_extractor_alt
  by (auto simp: Let_def truncated_def dumped_def split: prod.splits option.splits)

text \<open>
  C7, as stated, fails: an archive with two members of the same name gets a manifest
  with one entry, that of the later member.
\<close>

theorem duplicate_names_share_one_entry:
  "tarfile_open sample_lib (print ''1: tar'' empty_world) ''appended.tar'' = Inr appended_tar \<and>
   getmembers appended_tar = Inr [log_v1, log_v2] \<and>
   fst (tar_extractor sample_lib ''appended.tar'' ''out'' ''files.json'' empty_world) = Inr () \<and>
   files (snd (tar_extractor sample_lib ''appended.tar'' ''out'' ''files.json'' empty_world))
     ''files.json'' = Some (Json [(''log.txt'', [(''type'', 0), (''size'', 9)])])"
  by (simp add: run_defs sample_defs)

text \<open>
  C7, amended. For every tar archive that opens, whose members are listed and all have a
  decimal digit as type flag, once the manifest file has been opened and dumped, and
  unless \<^verbatim>\<open>extractall\<close> then writes a member onto the manifest file, the manifest file
  holds, whether \<^verbatim>\<open>extractall\<close> raises or not: one entry per distinct member name, keyed
  by that name, in the order in which the names first occur in the archive; the entry
  of a name is that of the last member of that name, with its type flag as an integer
  and its size exactly when it is a regular file. When the member names are pairwise
  distinct, that is one entry per member, in the order of the archive.
\<close>

theorem tar_manifest_contents:
  assumes "tarfile_open L (print ''1: tar'' w) path = Inr tar"
    and "getmembers tar = Inr ms"
    and "\<forall>m\<in>set ms. member_type m \<in> set ''0123456789''"
    and "open_w L (print ''1: tar'' w) file_list_file = None"
    and "json_dump L (truncated file_list_file w) file_list_file = None"
    and "file_list_file \<notin>
           snd ` set (fst (extractall L (dumped file_list_file (spec_manifest ms) w) tar data_dir))"
  shows "files (snd (tar_extractor L path data_dir file_list_file w)) file_list_file =
           Some (Json (spec_manifest ms)) \<and>
         map fst (spec_manifest ms) = first_occurrences (map member_name ms) \<and>
         (\<forall>n\<in>set (map member_name ms).
            map_of (spec_manifest ms) n =
              Some ((''type'', int (of_char (member_type (last (filter (\<lambda>m. member_name m = n) ms)))) - 48) #
                    (if member_isreg (last (filter (\<lambda>m. member_name m = n) ms))
                     then [(''size'', member_size (last (filter (\<lambda>m. member_name m = n) ms)))]
                     else []))) \<and>
         (distinct (map member_name ms) \<longrightarrow>
            spec_manifest ms = map (\<lambda>m. (member_name m, spec_entry m)) ms)"
proof -
  have ml: "member_loop ms [] = Inr (spec_manifest ms)"
    using member_loop_digits[OF assms(3), of "[]"] by (simp add: store_all_spec)
  from tar_after_dump[OF assms(1,2) ml assms(4,5), of data_dir]
  have "files (snd (tar_extractor L path data_dir file_list_file w)) file_list_file =
      files (dumped file_list_file (spec_manifest ms) w) file_list_file"
    using assms(6) by (simp add: write_members_other)
  then have 1: "files (snd (tar_extractor L path data_dir file_list_file w)) file_list_file =
           Some (Json (spec_manifest ms))"
    by (simp add: dumped_def)
  have 2: "map fst (spec_manifest ms) = first_occurrences (map member_name ms)"
    by (simp add: spec_manifest_def comp_def)
  have 3: "\<forall>n\<in>set (map member_name ms).
            map_of (spec_manifest ms) n =
              Some ((''type'', int (of_char (member_type (last (filter (\<lambda>m. member_name m = n) ms)))) - 48) #
                    (if member_isreg (last (filter (\<lambda>m. member_name m = n) ms))
                     then [(''size'', member_size (last (filter (\<lambda>m. member_name m = n) ms)))]
                     else []))"
    by (simp add: spec_manifest_def map_of_tabulate set_first_occurrences spec_entry_def
        type_code_def del: set_map)
  have 4: "distinct (map member_name ms) \<longrightarrow>
            spec_manifest ms = map (\<lambda>m. (member_name m, spec_entry m)) ms"
    by (simp add: spec_manifest_distinct)
  show ?thesis using 1 2 3 4 by blast
qed

theorem tar_manifest_contents_witness:
  "tarfile_open sample_lib (print ''1: tar'' empty_world) ''appended.tar'' = Inr appended_tar \<and>
   getmembers appended_tar = Inr [log_v1, log_v2] \<and>
   spec_manifest [log_v1, log_v2] = [(''log.txt'', [(''type'', 0), (''size'', 9)])] \<and>
   files (snd (tar_extractor sample_lib ''appended.tar'' ''out'' ''files.json'' empty_world))
     ''files.json'' = Some (Json [(''log.txt'', [(''type'', 0), (''size'', 9)])]) \<and>
   tarfile_open sample_lib (print ''1: tar'' empty_world) ''corpus.tar'' = Inr corpus_tar \<and>
   getmembers corpus_tar = Inr [corpus_dir, corpus_readme] \<and>
   fst (tar_extractor sample_lib ''corpus.tar'' ''/readonly'' ''files.json'' empty_world) =
     Inl (OSError ''Permission denied'') \<and>
   files (snd (tar_extractor sample_lib ''corpus.tar'' ''/readonly'' ''files.json'' empty_world))
     ''files.json'' =
     Some (Json [(''corpus'', [(''type'', 5)]), (''corpus/README'', [(''type'', 0), (''size'', 12)])])"
proof -
  have o1: "tarfile_open sample_lib (print ''1: tar'' empty_world) ''appended.tar'' = Inr appended_tar"
    by (simp add: sample_lib_def)
  have g1: "getmembers appended_tar = Inr [log_v1, log_v2]"
    by (simp add: appended_tar_def)
  have d1: "\<forall>m\<in>set [log_v1, log_v2]. member_type m \<in> set ''0123456789''"
    by (simp add: log_v1_def log_v2_def)
  have ow1: "open_w sample_lib (print ''1: tar'' empty_world) ''files.json'' = None"
    by (simp add: sample_lib_def)
  have jd1: "json_dump sample_lib (truncated ''files.json'' empty_world) ''files.json'' = None"
    by (simp add: sample_lib_def)
  have sm1: "spec_manifest [log_v1, log_v2] = [(''log.txt'', [(''type'', 0), (''size'', 9)])]"
    by (simp add: spec_defs log_v1_def log_v2_def)
  have n1: "''files.json'' \<notin> snd ` set (fst (extractall sample_lib
      (dumped ''files.json'' (spec_manifest [log_v1, log_v2]) empty_world) appended_tar ''out''))"
    by (simp add: sample_lib_def appended_tar_def log_v1_def log_v2_def)
  have o2: "tarfile_open sample_lib (print ''1: tar'' empty_world) ''corpus.tar'' = Inr corpus_tar"
    by (simp add: sample_lib_def)
  have g2: "getmembers corpus_tar = Inr [corpus_dir, corpus_readme]"
    by (simp add: corpus_tar_def)
  have d2: "\<forall>m\<in>set [corpus_dir, corpus_readme]. member_type m \<in> set ''0123456789''"
    by (simp add: corpus_dir_def corpus_readme_def)
  have sm2: "spec_manifest [corpus_dir, corpus_readme] =
      [(''corpus'', [(''type'', 5)]), (''corpus/README'', [(''type'', 0), (''size'', 12)])]"
    by (simp add: spec_defs corpus_dir_def corpus_readme_def)
  have n2: "''files.json'' \<notin> snd ` set (fst (extractall sample_lib
      (dumped ''files.json'' (spec_manifest [corpus_dir, corpus_readme]) empty_world) corpus_tar
      ''/readonly''))"
    by (simp add: sample_lib_def)
  have f2: "fst (tar_extractor sample_lib ''corpus.tar'' ''/readonly'' ''files.json'' empty_world) =
     Inl (OSError ''Permission denied'')"
    by (simp add: run_defs sample_defs)
  from tar_manifest_contents[OF o1 g1 d1 ow1 jd1 n1]
  have r1: "files (snd (tar_extractor sample_lib ''appended.tar'' ''out'' ''files.json'' empty_world))
     ''files.json'' = Some (Json (spec_manifest [log_v1, log_v2]))"
    by blast
  from tar_manifest_contents[OF o2 g2 d2 ow1 jd1 n2]
  have r2: "files (snd (tar_extractor sample_lib ''corpus.tar'' ''/readonly'' ''files.json'' empty_world))
     ''files.json'' = Some (Json (spec_manifest [corpus_dir, corpus_readme]))"
    by blast
  from o1 g1 sm1 r1 o2 g2 f2 r2 sm2 show ?thesis by simp
qed

text \<open>
  A member whose type flag is no decimal digit, such as the NUL flag of an old-style
  regular file, makes \<^verbatim>\<open>int(member.type)\<close> raise: \<^verbatim>\<open>tar_extractor\<close> fails with
  \<^verbatim>\<open>ValueError\<close> before it writes anything.
\<close>

lemma non_digit_type_flag_raises:
  assumes "tarfile_open L (print ''1: tar'' w) path = Inr tar"
    and "getmembers tar = Inr ms"
    and "\<exists>m\<in>set ms. member_type m \<notin> set ''0123456789''"
  shows "tar_extractor L path data_dir file_list_file w =
     (Inl (ValueError ''invalid literal for int() with base 10''), print ''1: tar'' w)"
  using assms(1,2) member_loop_non_digit[OF assms(3), of "[]"]
  by (simp add: tar_extractor_alt Let_def)

lemma old_style_archive_raises:
  "tar_extractor sample_lib ''old.tar'' ''out'' ''files.json'' empty_world =
     (Inl (ValueError ''invalid literal for int() with base 10''), print ''1: tar'' empty_world)"
  by (rule non_digit_type_flag_raises[of _ _ _ old_style_tar "[old_style_file]"])
     (simp_all add: sample_lib_def old_style_tar_def old_style_file_def)

subsection \<open>What a failed call leaves behind\<close>







subsection \<open>Determinism of the manifest\<close>






end
